theory Spec2Isabelle
  imports Main "HOL-Library.Log_Nat"
begin

section \<open>Order processing service: balances, orders, statistics\<close>

text \<open>
  The development follows \<open>src/balance_service.py\<close> and \<open>src/order_service.py\<close>.
  Amounts and balances are Python floats, that is IEEE 754 doubles; they are values of
  the type \<open>pyfloat\<close> below, with the rounding, the infinities, NaN and the two zeros of
  doubles. Python's \<open>int\<close> is \<^typ>\<open>int\<close>. The two module-level dictionaries are fields of
  one record of the process state, which every operation takes and returns.
\<close>

subsection \<open>Python floats\<close>

text \<open>
  Every finite double is a whole multiple of \<open>2\<close> to the \<open>-1074\<close>, the smallest positive
  double. \<open>Finite neg m\<close> is the double with sign bit \<open>neg\<close> and magnitude \<open>m\<close> times
  \<open>2\<close> to the \<open>-1074\<close>; \<open>Finite True 0\<close> is \<open>-0.0\<close>. The magnitudes that occur are those
  with at most 53 significant bits below \<open>2\<close> to the \<open>2098\<close> (which stands for \<open>2\<close> to
  the \<open>1024\<close>); \<open>is_double\<close> says so. \<open>PInf\<close> and \<open>NInf\<close> are the infinities. Python
  does not distinguish NaNs, so there is one.
\<close>

datatype pyfloat = Finite bool nat | PInf | NInf | NaN

definition unit_scale :: nat where
  "unit_scale = 2 ^ 1074"

text \<open>The float of a whole number, as the literals \<open>500.00\<close> and \<open>0.0\<close> of the source;
  exact below \<open>2\<close> to the \<open>53\<close>.\<close>

definition float_of_nat :: "nat \<Rightarrow> pyfloat" where
  "float_of_nat n = Finite False (n * unit_scale)"

definition sval :: "bool \<Rightarrow> nat \<Rightarrow> int" where
  "sval neg m = (if neg then - int m else int m)"

text \<open>
  Rounding of a magnitude to 53 significant bits, to the nearest such magnitude, a tie
  going to the even one. \<open>floorlog 2 n\<close> is the number of bits of \<open>n\<close>. Sums and
  differences of doubles are whole multiples of the unit, so nothing is lost below it.
\<close>

definition round53 :: "nat \<Rightarrow> nat" where
  "round53 n =
     (let len = floorlog 2 n in
      if len \<le> 53 then n
      else let k = len - 53; q = n div 2 ^ k; r = n mod 2 ^ k; half = 2 ^ (k - 1)
           in (if half < r \<or> (r = half \<and> odd q) then q + 1 else q) * 2 ^ k)"

text \<open>The double nearest to an exact non-zero result; a rounded magnitude of \<open>2\<close> to the
  \<open>1024\<close> or more is an infinity.\<close>

definition mk_float :: "bool \<Rightarrow> nat \<Rightarrow> pyfloat" where
  "mk_float neg n =
     (let m = round53 n in
      if 2 ^ 2098 \<le> m then (if neg then NInf else PInf) else Finite neg m)"

fun fneg :: "pyfloat \<Rightarrow> pyfloat" where
  "fneg (Finite s m) = Finite (\<not> s) m"
| "fneg PInf = NInf"
| "fneg NInf = PInf"
| "fneg NaN = NaN"

text \<open>Python's \<open>+\<close> on floats. An exact sum of zero is \<open>-0.0\<close> only when both arguments
  are negative (both are \<open>-0.0\<close> then).\<close>

fun fadd :: "pyfloat \<Rightarrow> pyfloat \<Rightarrow> pyfloat" where
  "fadd NaN y = NaN"
| "fadd x NaN = NaN"
| "fadd PInf NInf = NaN"
| "fadd NInf PInf = NaN"
| "fadd PInf y = PInf"
| "fadd x PInf = PInf"
| "fadd NInf y = NInf"
| "fadd x NInf = NInf"
| "fadd (Finite s m) (Finite t n) =
     (let v = sval s m + sval t n in
      if v = 0 then Finite (s \<and> t) 0 else mk_float (v < 0) (nat \<bar>v\<bar>))"

text \<open>Python's \<open>-\<close> on floats.\<close>

definition fsub :: "pyfloat \<Rightarrow> pyfloat \<Rightarrow> pyfloat" where
  "fsub x y = fadd x (fneg y)"

text \<open>Python's \<open><\<close> and \<open><=\<close> on floats: false whenever an argument is NaN.\<close>

fun flt :: "pyfloat \<Rightarrow> pyfloat \<Rightarrow> bool" where
  "flt NaN y = False"
| "flt x NaN = False"
| "flt (Finite s m) (Finite t n) = (sval s m < sval t n)"
| "flt x NInf = False"
| "flt PInf y = False"
| "flt x PInf = True"
| "flt NInf y = True"

fun fle :: "pyfloat \<Rightarrow> pyfloat \<Rightarrow> bool" where
  "fle NaN y = False"
| "fle x NaN = False"
| "fle (Finite s m) (Finite t n) = (sval s m \<le> sval t n)"
| "fle NInf y = True"
| "fle x PInf = True"
| "fle x NInf = False"
| "fle PInf y = False"

fun is_double :: "pyfloat \<Rightarrow> bool" where
  "is_double (Finite s m) = (round53 m = m \<and> m < 2 ^ 2098)"
| "is_double x = True"

subsection \<open>Data\<close>

text \<open>\<open>BalanceResponse\<close> of \<open>balance_service.py\<close>.\<close>

record BalanceResponse =
  success :: bool
  customer_id :: int
  new_balance :: pyfloat
  error :: "string option"

text \<open>\<open>OrderRequest\<close> and \<open>OrderResponse\<close> of \<open>order_service.py\<close>. The field names carry
  a prefix, since both classes have fields \<open>id\<close> and \<open>priority\<close>.\<close>

record OrderRequest =
  o_id :: int
  o_customer_id :: int
  o_amount :: pyfloat
  o_priority :: bool

record OrderResponse =
  r_id :: int
  r_status :: string
  r_priority :: bool
  r_message :: "string option"
  r_new_balance :: "pyfloat option"

record BatchOrderRequest =
  orders :: "OrderRequest list"

text \<open>The dictionary \<open>_daily_stats\<close>, with its two keys.\<close>

record stats =
  total_revenue :: pyfloat
  order_count :: int

text \<open>
  The process state: the dictionary \<open>_customer_balances\<close>, the dictionary
  \<open>_daily_stats\<close>, and the number of values \<open>random.random()\<close> has handed to
  \<open>deduct_balance\<close> so far. The values themselves are a parameter \<open>rnd\<close> of the
  operations: \<open>rnd k\<close> says that the \<open>k\<close>-th such value is below \<open>0.1\<close>, that is, that
  the \<open>k\<close>-th call of \<open>deduct_balance\<close> raises \<open>ConnectionError\<close>. The sleeps take time
  and do nothing else; they are not part of the state.
\<close>

record world =
  customer_balances :: "int \<rightharpoonup> pyfloat"
  daily_stats :: stats
  draws :: nat

text \<open>The one exception the source raises.\<close>

datatype exn = ConnectionError string

subsection \<open>Text conversion used by the f-strings\<close>

definition digit :: "nat \<Rightarrow> char" where
  "digit n = ''0123456789'' ! n"

function str_nat :: "nat \<Rightarrow> string" where
  "str_nat n = (if n < 10 then [digit n] else str_nat (n div 10) @ [digit (n mod 10)])"
  by pat_completeness auto
termination
  by (relation "measure id") auto

declare str_nat.simps [simp del]

text \<open>\<open>str\<close> of a Python \<open>int\<close>.\<close>

definition str_int :: "int \<Rightarrow> string" where
  "str_int i = (if i < 0 then ''-'' @ str_nat (nat (- i)) else str_nat (nat i))"

text \<open>How an f-string renders a value that is \<open>None\<close> or a string.\<close>

fun str_opt :: "string option \<Rightarrow> string" where
  "str_opt None = ''None''"
| "str_opt (Some s) = s"

subsection \<open>The balance service\<close>

definition seed_balances :: "int \<rightharpoonup> pyfloat" where
  "seed_balances = [1 \<mapsto> float_of_nat 500, 2 \<mapsto> float_of_nat 1000, 3 \<mapsto> float_of_nat 250,
                    4 \<mapsto> float_of_nat 750, 5 \<mapsto> float_of_nat 100]"

definition get_balance :: "world \<Rightarrow> int \<Rightarrow> pyfloat" where
  "get_balance w cid = (case customer_balances w cid of None \<Rightarrow> float_of_nat 0 | Some b \<Rightarrow> b)"

text \<open>
  \<open>deduct_balance\<close>: one random value is consumed; if it is below \<open>0.1\<close> the call raises
  (\<open>Inl\<close>), before the dictionary is read. Otherwise the balance is read, compared and
  written.
\<close>

definition deduct_balance ::
  "(nat \<Rightarrow> bool) \<Rightarrow> int \<Rightarrow> pyfloat \<Rightarrow> world \<Rightarrow> (exn + BalanceResponse) \<times> world" where
  "deduct_balance rnd cid amount w =
     (let w1 = w\<lparr>draws := draws w + 1\<rparr> in
      if rnd (draws w) then
        (Inl (ConnectionError ''Balance service temporarily unavailable''), w1)
      else
        let current_balance = get_balance w1 cid in
        if flt current_balance amount then
          (Inr \<lparr>success = False, customer_id = cid, new_balance = current_balance,
                error = Some ''Insufficient balance''\<rparr>, w1)
        else
          let nb = fsub current_balance amount in
          (Inr \<lparr>success = True, customer_id = cid, new_balance = nb, error = None\<rparr>,
           w1\<lparr>customer_balances := (customer_balances w1)(cid \<mapsto> nb)\<rparr>))"

definition reset_balances :: "world \<Rightarrow> world" where
  "reset_balances w = w\<lparr>customer_balances := seed_balances\<rparr>"

subsection \<open>The order service\<close>

text \<open>\<open>_update_daily_stats\<close>, run by one caller from its first line to its last.\<close>

definition update_daily_stats :: "pyfloat \<Rightarrow> stats \<Rightarrow> stats" where
  "update_daily_stats amount s =
     (let current_revenue = total_revenue s;
          current_count = order_count s
      in s\<lparr>total_revenue := fadd current_revenue amount, order_count := current_count + 1\<rparr>)"

text \<open>
  The retry loop of \<open>_process_single_order\<close>, \<open>for attempt in range(max_retries)\<close>, with
  the statement after the loop as its base case. The first argument of type \<^typ>\<open>nat\<close>
  is the number of iterations left. \<open>repr_float\<close> is Python's conversion of a float to
  text, which the f-strings apply; it belongs to the language, not to the repository, and
  is a parameter.
\<close>

fun deduct_attempts ::
  "(nat \<Rightarrow> bool) \<Rightarrow> OrderRequest \<Rightarrow> int \<Rightarrow> nat \<Rightarrow> string option \<Rightarrow> world
    \<Rightarrow> OrderResponse \<times> world" where
  "deduct_attempts rnd order max_retries 0 last_error w =
     (\<lparr>r_id = o_id order, r_status = ''error'', r_priority = o_priority order,
       r_message = Some (''Balance service unavailable after '' @ str_int max_retries
                         @ '' retries: '' @ str_opt last_error),
       r_new_balance = None\<rparr>, w)"
| "deduct_attempts rnd order max_retries (Suc n) last_error w =
     (case deduct_balance rnd (o_customer_id order) (o_amount order) w of
        (Inl (ConnectionError e), w') \<Rightarrow>
          deduct_attempts rnd order max_retries n (Some e) w'
      | (Inr result, w') \<Rightarrow>
          if success result then
            (\<lparr>r_id = o_id order, r_status = ''ok'', r_priority = o_priority order,
              r_message = None, r_new_balance = Some (new_balance result)\<rparr>,
             w'\<lparr>daily_stats := update_daily_stats (o_amount order) (daily_stats w')\<rparr>)
          else
            (\<lparr>r_id = o_id order, r_status = ''error'', r_priority = o_priority order,
              r_message = error result, r_new_balance = None\<rparr>, w'))"

text \<open>\<open>_process_single_order\<close>. Its first test compares the float with the integer \<open>0\<close>,
  which Python does by value, as with \<open>0.0\<close>.\<close>

definition process_single_order ::
  "(pyfloat \<Rightarrow> string) \<Rightarrow> (nat \<Rightarrow> bool) \<Rightarrow> OrderRequest \<Rightarrow> int \<Rightarrow> world
    \<Rightarrow> OrderResponse \<times> world" where
  "process_single_order repr_float rnd order max_retries w =
     (if fle (o_amount order) (float_of_nat 0) then
        (\<lparr>r_id = o_id order, r_status = ''error'', r_priority = o_priority order,
          r_message = Some ''Invalid order amount'', r_new_balance = None\<rparr>, w)
      else
        let current_balance = get_balance w (o_customer_id order) in
        if flt current_balance (o_amount order) then
          (\<lparr>r_id = o_id order, r_status = ''error'', r_priority = o_priority order,
            r_message = Some (''Insufficient balance: '' @ repr_float current_balance
                              @ '' < '' @ repr_float (o_amount order)),
            r_new_balance = None\<rparr>, w)
        else deduct_attempts rnd order max_retries (nat max_retries) None w)"

text \<open>\<open>create_order\<close> uses the default \<open>max_retries = 3\<close>.\<close>

definition create_order ::
  "(pyfloat \<Rightarrow> string) \<Rightarrow> (nat \<Rightarrow> bool) \<Rightarrow> OrderRequest \<Rightarrow> world \<Rightarrow> OrderResponse \<times> world" where
  "create_order repr_float rnd order w = process_single_order repr_float rnd order 3 w"

text \<open>The first loop of \<open>create_orders_batch\<close>: the orders are processed in input order,
  each on the state the previous one left.\<close>

fun process_orders ::
  "(pyfloat \<Rightarrow> string) \<Rightarrow> (nat \<Rightarrow> bool) \<Rightarrow> OrderRequest list \<Rightarrow> world
    \<Rightarrow> OrderResponse list \<times> world" where
  "process_orders repr_float rnd [] w = ([], w)"
| "process_orders repr_float rnd (order # rest) w =
     (let (result, w1) = process_single_order repr_float rnd order 3 w;
          (results, w2) = process_orders repr_float rnd rest w1
      in (result # results, w2))"

text \<open>
  \<open>sorted(results, key=lambda x: x.priority)\<close>: Python's \<open>sorted\<close> is a stable sort in
  ascending order of the key, and \<open>False < True\<close> for its booleans as for HOL's.
  \<^const>\<open>sort_key\<close> is the stable ascending sort of the library.
\<close>

definition create_orders_batch ::
  "(pyfloat \<Rightarrow> string) \<Rightarrow> (nat \<Rightarrow> bool) \<Rightarrow> BatchOrderRequest \<Rightarrow> world
    \<Rightarrow> OrderResponse list \<times> world" where
  "create_orders_batch repr_float rnd request w =
     (let (results, w') = process_orders repr_float rnd (orders request) w
      in (sort_key r_priority results, w'))"

definition get_stats :: "world \<Rightarrow> stats" where
  "get_stats w = \<lparr>total_revenue = total_revenue (daily_stats w),
                  order_count = order_count (daily_stats w)\<rparr>"

definition reset_state :: "world \<Rightarrow> world" where
  "reset_state w = reset_balances (w\<lparr>daily_stats := \<lparr>total_revenue = float_of_nat 0, order_count = 0\<rparr>\<rparr>)"

text \<open>The state after the modules are loaded.\<close>

definition initial_world :: world where
  "initial_world = \<lparr>customer_balances = seed_balances,
                     daily_stats = \<lparr>total_revenue = float_of_nat 0, order_count = 0\<rparr>,
                     draws = 0\<rparr>"

subsection \<open>Sequences of calls to the balance service\<close>

text \<open>The three operations of \<open>balance_service.py\<close> as commands, and their effect on the
  state. \<open>get_balance\<close> only reads.\<close>

datatype ledger_op = GetBalance int | DeductBalance int pyfloat | ResetBalances

fun ledger_step :: "(nat \<Rightarrow> bool) \<Rightarrow> ledger_op \<Rightarrow> world \<Rightarrow> world" where
  "ledger_step rnd (GetBalance cid) w = w"
| "ledger_step rnd (DeductBalance cid amount) w = snd (deduct_balance rnd cid amount w)"
| "ledger_step rnd ResetBalances w = reset_balances w"

fun ledger_run :: "(nat \<Rightarrow> bool) \<Rightarrow> ledger_op list \<Rightarrow> world \<Rightarrow> world" where
  "ledger_run rnd [] w = w"
| "ledger_run rnd (c # cs) w = ledger_run rnd cs (ledger_step rnd c w)"

text \<open>The commands whose amount, if they have one, is neither NaN nor plus infinity.\<close>

fun ordinary_op :: "ledger_op \<Rightarrow> bool" where
  "ordinary_op (DeductBalance cid amount) = (amount \<noteq> NaN \<and> amount \<noteq> PInf)"
| "ordinary_op c = True"

text \<open>The random values under which no call of \<open>deduct_balance\<close> fails transiently.\<close>

definition no_failures :: "nat \<Rightarrow> bool" where
  "no_failures k = False"

subsection \<open>Several callers inside \<open>_update_daily_stats\<close>\<close>

text \<open>
  \<open>_update_daily_stats\<close> takes no lock. A caller reads both entries of the dictionary
  into its local variables \<open>current_revenue\<close> and \<open>current_count\<close>, sleeps, and then
  writes both entries from these local variables. While it sleeps other callers run. The
  position of a caller is one of: before its reads, asleep holding the two values it read,
  or returned.
\<close>

datatype upd_pc = Entered | Asleep pyfloat int | Returned

text \<open>One move of a caller with argument \<open>amount\<close>: the two reads, or the two writes.\<close>

fun upd_step :: "pyfloat \<Rightarrow> upd_pc \<Rightarrow> stats \<Rightarrow> upd_pc \<times> stats" where
  "upd_step amount Entered s = (Asleep (total_revenue s) (order_count s), s)"
| "upd_step amount (Asleep current_revenue current_count) s =
     (Returned, s\<lparr>total_revenue := fadd current_revenue amount,
                   order_count := current_count + 1\<rparr>)"
| "upd_step amount Returned s = (Returned, s)"

text \<open>A schedule names, move by move, the caller that runs next. The callers are a list
  of pairs of the argument and the position; a number that names no caller is skipped.\<close>

fun run_schedule ::
  "nat list \<Rightarrow> (pyfloat \<times> upd_pc) list \<Rightarrow> stats \<Rightarrow> (pyfloat \<times> upd_pc) list \<times> stats" where
  "run_schedule [] callers s = (callers, s)"
| "run_schedule (i # sched) callers s =
     (if i < length callers then
        let (amount, pc) = callers ! i;
            (pc', s') = upd_step amount pc s
        in run_schedule sched (callers[i := (amount, pc')]) s'
      else run_schedule sched callers s)"

section \<open>Properties\<close>

subsection \<open>Floats: whole numbers are exact, rounding keeps the order\<close>

lemma unit_scale_pos [simp]: "0 < unit_scale"
  by (simp add: unit_scale_def)

lemma round53_small: "floorlog 2 n \<le> 53 \<Longrightarrow> round53 n = n"
  by (simp add: round53_def)

lemma round53_exact:
  assumes "m < 2 ^ 53"
  shows "round53 (m * 2 ^ j) = m * 2 ^ j"
proof (cases "floorlog 2 (m * 2 ^ j) \<le> 53")
  case True
  then show ?thesis by (rule round53_small)
next
  case False
  define k where "k = floorlog 2 (m * 2 ^ j) - 53"
  from assms have "m * 2 ^ j < 2 ^ (53 + j)"
    by (simp add: power_add)
  then have "floorlog 2 (m * 2 ^ j) \<le> 53 + j"
    by (simp add: floorlog_le_iff)
  with False have k: "0 < k" "k \<le> j"
    by (simp_all add: k_def)
  then have dvd: "(2::nat) ^ k dvd m * 2 ^ j"
    by (simp add: le_imp_power_dvd)
  then have r: "(m * 2 ^ j) mod 2 ^ k = 0"
    by simp
  have h: "(0::nat) < 2 ^ (k - 1)" by simp
  from dvd have "(m * 2 ^ j) div 2 ^ k * 2 ^ k = m * 2 ^ j"
    by simp
  with False r h show ?thesis
    by (simp add: round53_def Let_def flip: k_def)
qed

lemma round53_0 [simp]: "round53 0 = 0"
  by (simp add: round53_def floorlog_def)

lemma mk_float_units:
  assumes "m < 2 ^ 53"
  shows "mk_float s (m * unit_scale) = Finite s (m * unit_scale)"
proof -
  have "m * 2 ^ 1074 < 2 ^ 53 * (2::nat) ^ 1074"
    using assms by simp
  also have "\<dots> \<le> 2 ^ 2098"
    by (simp flip: power_add)
  finally have "\<not> (2::nat) ^ 2098 \<le> m * 2 ^ 1074" by simp
  with round53_exact [OF assms, of 1074] show ?thesis
    unfolding mk_float_def unit_scale_def Let_def by simp
qed

lemma fadd_nat:
  assumes "a + b < 2 ^ 53"
  shows "fadd (float_of_nat a) (float_of_nat b) = float_of_nat (a + b)"
proof (cases "a + b = 0")
  case True
  then show ?thesis by (simp add: float_of_nat_def sval_def)
next
  case False
  have "int (a * unit_scale) + int (b * unit_scale) = int ((a + b) * unit_scale)"
    by (simp add: algebra_simps)
  moreover from False have "(a + b) * unit_scale \<noteq> 0" by simp
  ultimately show ?thesis
    using mk_float_units [OF assms, of False]
    by (simp add: float_of_nat_def sval_def Let_def del: of_nat_mult of_nat_add)
qed

lemma fsub_nat:
  assumes "b < 2 ^ 53" and "a \<le> b"
  shows "fsub (float_of_nat b) (float_of_nat a) = float_of_nat (b - a)"
proof (cases "a = b")
  case True
  then show ?thesis by (simp add: fsub_def float_of_nat_def sval_def)
next
  case False
  with assms have lt: "a < b" by simp
  then have eq: "int (b * unit_scale) - int (a * unit_scale) = int ((b - a) * unit_scale)"
    by (simp add: algebra_simps)
  from lt have nz: "(b - a) * unit_scale \<noteq> 0" by simp
  from assms have "b - a < 2 ^ 53" by simp
  from mk_float_units [OF this, of False] eq nz show ?thesis
    by (simp add: fsub_def float_of_nat_def sval_def Let_def del: of_nat_mult)
qed

lemma flt_nat [simp]: "flt (float_of_nat a) (float_of_nat b) = (a < b)"
  by (simp add: float_of_nat_def sval_def)

lemma fle_nat [simp]: "fle (float_of_nat a) (float_of_nat b) = (a \<le> b)"
  by (simp add: float_of_nat_def sval_def)

lemma round53_floor:
  assumes "53 < floorlog 2 n"
  shows "n div 2 ^ (floorlog 2 n - 53) * 2 ^ (floorlog 2 n - 53) \<le> round53 n"
  using assms by (simp add: round53_def Let_def)

lemma round53_multiple:
  assumes "53 < floorlog 2 n"
  shows "2 ^ (floorlog 2 n - 53) dvd round53 n"
  using assms by (simp add: round53_def Let_def)

lemma round53_ge:
  assumes fixed: "round53 b = b" and le: "b \<le> n"
  shows "b \<le> round53 n"
proof (cases "floorlog 2 n \<le> 53")
  case True
  with le show ?thesis by (simp add: round53_small)
next
  case False
  define len where "len = floorlog 2 n"
  define k where "k = len - 53"
  from False have len: "53 < len" by (simp add: len_def)
  then have npos: "0 < n" by (auto simp: len_def floorlog_def split: if_splits)
  have floor_le: "n div 2 ^ k * 2 ^ k \<le> round53 n"
    using round53_floor [of n] len by (simp add: len_def k_def)
  have "b \<le> n div 2 ^ k * 2 ^ k"
  proof (cases "floorlog 2 b = len")
    case True
    with len have "2 ^ k dvd round53 b"
      using round53_multiple [of b] by (simp add: k_def)
    with fixed obtain c where c: "b = c * 2 ^ k"
      by (auto simp: dvd_def mult.commute)
    with le have "c \<le> n div 2 ^ k"
      by (metis div_le_mono nonzero_mult_div_cancel_right power_not_zero zero_neq_numeral)
    with c show ?thesis by simp
  next
    case ne: False
    have "floorlog 2 b \<le> len"
      using le by (simp add: len_def floorlog_mono)
    with ne have "floorlog 2 b \<le> len - 1" by simp
    then have blt: "b < 2 ^ (len - 1)"
      by (simp add: floorlog_le_iff)
    have low: "(2::nat) ^ (len - 1) \<le> n"
      using floorlog_bounds [of n 2] npos by (simp add: len_def)
    from len have "len - 1 = 52 + k" by (simp add: k_def)
    then have split: "(2::nat) ^ (len - 1) = 2 ^ 52 * 2 ^ k"
      by (simp only: power_add)
    with low have "2 ^ 52 * 2 ^ k \<le> n" by simp
    then have "(2::nat) ^ 52 \<le> n div 2 ^ k"
      by (metis div_le_mono nonzero_mult_div_cancel_right power_not_zero zero_neq_numeral)
    then have m: "(2::nat) ^ 52 * 2 ^ k \<le> n div 2 ^ k * 2 ^ k"
      by (rule mult_le_mono1)
    from blt have "b < 2 ^ 52 * 2 ^ k"
      unfolding split .
    from less_le_trans [OF this m] show ?thesis
      by (rule less_imp_le)
  qed
  with floor_le show ?thesis by simp
qed

lemma round53_idem: "round53 (round53 n) = round53 n"
proof (cases "floorlog 2 n \<le> 53")
  case True
  then show ?thesis by (simp add: round53_small)
next
  case False
  define len where "len = floorlog 2 n"
  define k where "k = len - 53"
  define q where "q = n div 2 ^ k"
  define q' where "q' = (if 2 ^ (k - 1) < n mod 2 ^ k \<or> (n mod 2 ^ k = 2 ^ (k - 1) \<and> odd q)
                         then q + 1 else q)"
  from False have len: "53 < len" by (simp add: len_def)
  then have npos: "0 < n" by (auto simp: len_def floorlog_def split: if_splits)
  have r: "round53 n = q' * 2 ^ k"
    using False by (simp add: round53_def Let_def len_def k_def q_def q'_def)
  have "n < 2 ^ len"
    using floorlog_bounds [of n 2] npos by (simp add: len_def)
  also have "(2::nat) ^ len = 2 ^ 53 * 2 ^ k"
  proof -
    from len have "len = 53 + k" by (simp add: k_def)
    then show ?thesis by (simp only: power_add)
  qed
  finally have "q < 2 ^ 53"
    by (simp add: q_def less_mult_imp_div_less)
  then have "q' \<le> 2 ^ 53" by (simp add: q'_def)
  then consider "q' < 2 ^ 53" | "q' = 2 ^ 53" by linarith
  then show ?thesis
  proof cases
    case 1
    then show ?thesis using round53_exact [of q' k] r by simp
  next
    case 2
    have "round53 (1 * 2 ^ (53 + k)) = 1 * 2 ^ (53 + k)"
      by (rule round53_exact) simp
    with 2 r show ?thesis by (simp add: power_add)
  qed
qed

lemma is_double_mk_float: "is_double (mk_float s n)"
  by (simp add: mk_float_def Let_def round53_idem)

lemma is_double_fneg: "is_double x \<Longrightarrow> is_double (fneg x)"
  by (cases x) simp_all

lemma is_double_fadd: "is_double (fadd x y)"
  by (cases x; cases y) (simp_all add: Let_def is_double_mk_float)

lemma is_double_fsub: "is_double (fsub x y)"
  by (simp add: fsub_def is_double_fadd)

lemma is_double_float_of_nat: "n < 2 ^ 53 \<Longrightarrow> is_double (float_of_nat n)"
  using mk_float_units [of n False] is_double_mk_float [of False "n * unit_scale"]
  by (simp add: float_of_nat_def)

lemma fle_mk_float_nonneg: "fle (float_of_nat 0) (mk_float False n)"
  by (simp add: mk_float_def Let_def float_of_nat_def sval_def)

lemma fsub_nonneg:
  assumes "fle (float_of_nat 0) b" and "\<not> flt b a" and "a \<noteq> NaN" and "a \<noteq> PInf"
  shows "fle (float_of_nat 0) (fsub b a)"
proof (cases b)
  case (Finite s m)
  show ?thesis
  proof (cases a)
    case (Finite t n)
    with \<open>b = Finite s m\<close> assms(2) have "0 \<le> sval s m + sval (\<not> t) n"
      by (auto simp: sval_def)
    then have "sval s m + sval (\<not> t) n < 0 \<longleftrightarrow> False" by simp
    with Finite \<open>b = Finite s m\<close> show ?thesis
      using fle_mk_float_nonneg
      by (simp add: fsub_def Let_def) (simp add: float_of_nat_def sval_def)
  next
    case NInf
    with Finite show ?thesis by (simp add: fsub_def float_of_nat_def)
  qed (use assms in simp_all)
next
  case PInf
  with assms show ?thesis
    by (cases a) (simp_all add: fsub_def float_of_nat_def)
next
  case NInf
  with assms show ?thesis by (simp add: float_of_nat_def)
next
  case NaN
  with assms show ?thesis by (simp add: float_of_nat_def)
qed

lemma fsub_not_negative:
  assumes "\<not> flt b (float_of_nat 0)" and "\<not> flt b a"
  shows "\<not> flt (fsub b a) (float_of_nat 0)"
proof (cases "b = NaN \<or> a = NaN \<or> a = PInf")
  case True
  with assms show ?thesis
    by (cases b; cases a) (auto simp: fsub_def float_of_nat_def)
next
  case False
  moreover from False assms(1) have "fle (float_of_nat 0) b"
    by (cases b) (auto simp: float_of_nat_def sval_def)
  ultimately have "fle (float_of_nat 0) (fsub b a)"
    using assms(2) by (intro fsub_nonneg) auto
  then show ?thesis
    by (cases "fsub b a") (auto simp: float_of_nat_def sval_def)
qed

lemma fsub_negative_ge:
  assumes dbl: "is_double b" and nonneg: "fle (float_of_nat 0) b"
    and neg: "flt a (float_of_nat 0)"
  shows "fle b (fsub b a)"
proof (cases b)
  case fb: (Finite s m)
  show ?thesis
  proof (cases a)
    case (Finite t n)
    from neg Finite have t: "t" "0 < n"
      by (auto simp: float_of_nat_def sval_def split: if_splits)
    from nonneg fb have v: "sval s m = int m"
      by (auto simp: float_of_nat_def sval_def split: if_splits)
    from dbl fb have "round53 m = m" by simp
    then have "m \<le> round53 (m + n)"
      by (rule round53_ge) simp
    with t v fb Finite show ?thesis
      by (simp add: fsub_def Let_def mk_float_def) (simp add: sval_def nat_add_distrib)
  next
    case NInf
    with fb show ?thesis by (simp add: fsub_def)
  qed (use neg in \<open>simp_all add: float_of_nat_def\<close>)
next
  case PInf
  with neg show ?thesis
    by (cases a) (simp_all add: fsub_def float_of_nat_def)
qed (use nonneg in \<open>simp_all add: float_of_nat_def\<close>)

lemma absorbed:
  "fsub (float_of_nat 500) (Finite True 1) = float_of_nat 500"
proof -
  have "floorlog 2 (500 * 2 ^ 1074 + 1) \<le> 1083"
    by (simp add: floorlog_le_iff)
  moreover have "1083 \<le> floorlog 2 (500 * 2 ^ 1074 + 1)"
    by (rule floorlog_geI) simp_all
  ultimately have len: "floorlog 2 (500 * 2 ^ 1074 + 1) = 1083"
    by simp
  have "round53 (500 * 2 ^ 1074 + 1) = 500 * 2 ^ 1074"
    unfolding round53_def len Let_def by simp
  then show ?thesis
    by (simp add: fsub_def float_of_nat_def sval_def unit_scale_def mk_float_def Let_def)
qed

lemma absorbed_debit:
  "fsub (float_of_nat 500) (Finite False 1) = float_of_nat 500"
proof -
  have "floorlog 2 (500 * 2 ^ 1074 - 1) \<le> 1083"
    by (simp add: floorlog_le_iff)
  moreover have "1083 \<le> floorlog 2 (500 * 2 ^ 1074 - 1)"
    by (rule floorlog_geI) simp_all
  ultimately have len: "floorlog 2 (500 * 2 ^ 1074 - 1) = 1083"
    by simp
  have "round53 (500 * 2 ^ 1074 - 1) = 500 * 2 ^ 1074"
    unfolding round53_def len Let_def by simp
  then show ?thesis
    by (simp add: fsub_def float_of_nat_def sval_def unit_scale_def mk_float_def Let_def)
qed

lemma fneg_fneg [simp]: "fneg (fneg x) = x"
  by (cases x) simp_all

lemma flt_imp_fle: "flt a b \<Longrightarrow> fle a b"
  by (cases a; cases b) simp_all

lemma nonneg_not_less_negative:
  "fle (float_of_nat 0) b \<Longrightarrow> flt a (float_of_nat 0) \<Longrightarrow> \<not> flt b a"
  by (cases a; cases b) (auto simp: float_of_nat_def sval_def split: if_splits)

lemma nonneg_not_negative: "fle (float_of_nat 0) b \<Longrightarrow> \<not> flt b (float_of_nat 0)"
  by (cases b) (auto simp: float_of_nat_def sval_def split: if_splits)

subsection \<open>The balance service, case by case\<close>

lemma deduct_balance_unavailable:
  "rnd (draws w) \<Longrightarrow> deduct_balance rnd cid amount w =
     (Inl (ConnectionError ''Balance service temporarily unavailable''), w\<lparr>draws := draws w + 1\<rparr>)"
  by (simp add: deduct_balance_def)

lemma get_balance_draws [simp]: "get_balance (w\<lparr>draws := d\<rparr>) cid = get_balance w cid"
  by (simp add: get_balance_def)

lemma deduct_balance_insufficient:
  "\<not> rnd (draws w) \<Longrightarrow> flt (get_balance w cid) amount \<Longrightarrow> deduct_balance rnd cid amount w =
     (Inr \<lparr>success = False, customer_id = cid, new_balance = get_balance w cid,
           error = Some ''Insufficient balance''\<rparr>, w\<lparr>draws := draws w + 1\<rparr>)"
  by (simp add: deduct_balance_def)

lemma deduct_balance_success:
  "\<not> rnd (draws w) \<Longrightarrow> \<not> flt (get_balance w cid) amount \<Longrightarrow> deduct_balance rnd cid amount w =
     (Inr \<lparr>success = True, customer_id = cid, new_balance = fsub (get_balance w cid) amount,
           error = None\<rparr>,
      w\<lparr>draws := draws w + 1,
        customer_balances := (customer_balances w)(cid \<mapsto> fsub (get_balance w cid) amount)\<rparr>)"
  by (simp add: deduct_balance_def Let_def)

subsection \<open>The retry loop\<close>

lemma deduct_attempts_effect:
  "deduct_attempts rnd order m n le w = (r, w') \<Longrightarrow>
     (r_status r = ''ok'' \<and> r_message r = None
        \<and> r_new_balance r = Some (fsub (get_balance w (o_customer_id order)) (o_amount order))
        \<and> customer_balances w' = (customer_balances w)
             (o_customer_id order \<mapsto> fsub (get_balance w (o_customer_id order)) (o_amount order))
        \<and> daily_stats w' = update_daily_stats (o_amount order) (daily_stats w))
   \<or> (r_status r = ''error'' \<and> (\<exists>msg. r_message r = Some msg) \<and> r_new_balance r = None
        \<and> customer_balances w' = customer_balances w \<and> daily_stats w' = daily_stats w)"
proof (induction n arbitrary: le w)
  case 0
  then show ?case by auto
next
  case (Suc n)
  show ?case
  proof (cases "rnd (draws w)")
    case True
    with Suc.prems have "deduct_attempts rnd order m n
        (Some ''Balance service temporarily unavailable'') (w\<lparr>draws := draws w + 1\<rparr>) = (r, w')"
      by (simp add: deduct_balance_unavailable)
    from Suc.IH [OF this] show ?thesis by simp
  next
    case False
    show ?thesis
    proof (cases "flt (get_balance w (o_customer_id order)) (o_amount order)")
      case True
      with False Suc.prems show ?thesis
        by (auto simp: deduct_balance_insufficient)
    next
      case nlt: False
      with False Suc.prems show ?thesis
        by (auto simp: deduct_balance_success)
    qed
  qed
qed

lemma deduct_attempts_echo:
  "deduct_attempts rnd order m n le w = (r, w') \<Longrightarrow>
     r_id r = o_id order \<and> r_priority r = o_priority order"
proof (induction n arbitrary: le w)
  case 0
  then show ?case by auto
next
  case (Suc n)
  then show ?case
    by (auto simp: deduct_balance_def Let_def split: if_splits)
qed

lemma deduct_attempts_draws:
  "deduct_attempts rnd order m n le w = (r, w') \<Longrightarrow>
     draws w \<le> draws w' \<and> draws w' \<le> draws w + n
     \<and> (\<forall>j. draws w + j + 1 < draws w' \<longrightarrow> rnd (draws w + j))"
proof (induction n arbitrary: le w)
  case 0
  then show ?case by auto
next
  case (Suc n)
  show ?case
  proof (cases "rnd (draws w)")
    case True
    with Suc.prems have "deduct_attempts rnd order m n
        (Some ''Balance service temporarily unavailable'') (w\<lparr>draws := draws w + 1\<rparr>) = (r, w')"
      by (simp add: deduct_balance_unavailable)
    from Suc.IH [OF this]
    have a: "draws w + 1 \<le> draws w'" "draws w' \<le> draws w + 1 + n"
      and b: "\<And>j. draws w + 1 + j + 1 < draws w' \<Longrightarrow> rnd (draws w + 1 + j)"
      by auto
    have "rnd (draws w + j)" if "draws w + j + 1 < draws w'" for j
    proof (cases j)
      case 0
      with True show ?thesis by simp
    next
      case (Suc i)
      with that b [of i] show ?thesis by simp
    qed
    with a show ?thesis by auto
  next
    case False
    with Suc.prems show ?thesis
      by (auto simp: deduct_balance_def Let_def split: if_splits)
  qed
qed

lemma deduct_attempts_all_unavailable:
  "(\<forall>j<n. rnd (draws w + j)) \<Longrightarrow>
   deduct_attempts rnd order m n le w =
     (\<lparr>r_id = o_id order, r_status = ''error'', r_priority = o_priority order,
       r_message = Some (''Balance service unavailable after '' @ str_int m @ '' retries: ''
          @ (if n = 0 then str_opt le else ''Balance service temporarily unavailable'')),
       r_new_balance = None\<rparr>, w\<lparr>draws := draws w + n\<rparr>)"
proof (induction n arbitrary: le w)
  case 0
  then show ?case by simp
next
  case (Suc n)
  from Suc.prems have h: "rnd (draws w)" by (metis add.right_neutral zero_less_Suc)
  from Suc.prems have "\<forall>j<n. rnd (draws (w\<lparr>draws := draws w + 1\<rparr>) + j)" 
    by (metis Suc_eq_plus1 Suc_less_eq add_Suc_shift select_convs(3) surjective update_convs(3))
  from Suc.IH [OF this] h show ?case
    by (simp add: deduct_balance_unavailable)
qed

subsection \<open>Processing one order\<close>

lemma process_single_order_echo:
  "process_single_order rf rnd order m w = (r, w') \<Longrightarrow>
     r_id r = o_id order \<and> r_priority r = o_priority order"
  by (auto simp: process_single_order_def Let_def split: if_splits
           dest: deduct_attempts_echo)

lemma process_single_order_effect:
  assumes run: "process_single_order rf rnd order m w = (r, w')"
  shows "(r_status r = ''ok'' \<and> r_message r = None
        \<and> r_new_balance r = Some (fsub (get_balance w (o_customer_id order)) (o_amount order))
        \<and> customer_balances w' = (customer_balances w)
             (o_customer_id order \<mapsto> fsub (get_balance w (o_customer_id order)) (o_amount order))
        \<and> daily_stats w' = update_daily_stats (o_amount order) (daily_stats w))
   \<or> (r_status r = ''error'' \<and> (\<exists>msg. r_message r = Some msg) \<and> r_new_balance r = None
        \<and> customer_balances w' = customer_balances w \<and> daily_stats w' = daily_stats w)"
proof (cases "fle (o_amount order) (float_of_nat 0) \<or> flt (get_balance w (o_customer_id order)) (o_amount order)")
  case True
  with run show ?thesis
    by (auto simp: process_single_order_def Let_def split: if_splits)
next
  case False
  with run have "deduct_attempts rnd order m (nat m) None w = (r, w')"
    by (simp add: process_single_order_def Let_def)
  then show ?thesis
    by (rule deduct_attempts_effect)
qed

text \<open>An order for the smallest positive double is processed with status \<open>ok\<close> and
  the balance \<open>500.0\<close> stays \<open>500.0\<close>: the subtraction is done once and rounds back.\<close>

lemma tiny_order_absorbed:
  "r_status (fst (process_single_order rf no_failures
        \<lparr>o_id = 1, o_customer_id = 1, o_amount = Finite False 1, o_priority = False\<rparr> 3
        initial_world)) = ''ok''
   \<and> get_balance (snd (process_single_order rf no_failures
        \<lparr>o_id = 1, o_customer_id = 1, o_amount = Finite False 1, o_priority = False\<rparr> 3
        initial_world)) 1 = float_of_nat 500"
proof -
  have a: "\<not> fle (Finite False (Suc 0)) (float_of_nat 0)"
    by (simp add: float_of_nat_def sval_def)
  have b: "\<not> flt (float_of_nat 500) (Finite False (Suc 0))"
    by (simp add: float_of_nat_def sval_def unit_scale_def)
  have c: "fsub (float_of_nat 500) (Finite False (Suc 0)) = float_of_nat 500"
    using absorbed_debit by simp
  from a b c show ?thesis
    by (simp add: process_single_order_def deduct_balance_def no_failures_def get_balance_def
          initial_world_def seed_balances_def numeral_3_eq_3 Let_def)
qed

text \<open>
  Claim C3. Processing one order gives one outcome, whatever the transient failures of
  the attempts are (\<open>rnd\<close> is arbitrary). If its status is \<open>ok\<close>, the customer's balance
  is the old balance minus the amount of the order, subtracted once as Python subtracts
  floats; the revenue is the old revenue plus that amount, added once, and the order
  count has gone up by one. Otherwise the status is \<open>error\<close>, and neither the balances
  nor the statistics have changed.
\<close>
theorem exactly_once:
  assumes "process_single_order rf rnd order max_retries w = (r, w')"
  shows "(r_status r = ''ok'' \<longrightarrow>
            customer_balances w' = (customer_balances w)
              (o_customer_id order \<mapsto> fsub (get_balance w (o_customer_id order)) (o_amount order))
          \<and> get_balance w' (o_customer_id order)
              = fsub (get_balance w (o_customer_id order)) (o_amount order)
          \<and> r_new_balance r = Some (fsub (get_balance w (o_customer_id order)) (o_amount order))
          \<and> total_revenue (daily_stats w') = fadd (total_revenue (daily_stats w)) (o_amount order)
          \<and> order_count (daily_stats w') = order_count (daily_stats w) + 1)
       \<and> (r_status r \<noteq> ''ok'' \<longrightarrow>
            r_status r = ''error'' \<and> customer_balances w' = customer_balances w
          \<and> daily_stats w' = daily_stats w)"
  using process_single_order_effect [OF assms]
  by (auto simp: update_daily_stats_def get_balance_def)

theorem exactly_once_witness:
  "r_status (fst (process_single_order (\<lambda>x. '''') (\<lambda>k. k < 2)
        \<lparr>o_id = 1, o_customer_id = 1, o_amount = float_of_nat 50, o_priority = False\<rparr> 3
        initial_world)) = ''ok''
   \<and> draws (snd (process_single_order (\<lambda>x. '''') (\<lambda>k. k < 2)
        \<lparr>o_id = 1, o_customer_id = 1, o_amount = float_of_nat 50, o_priority = False\<rparr> 3
        initial_world)) = 3
   \<and> get_balance (snd (process_single_order (\<lambda>x. '''') (\<lambda>k. k < 2)
        \<lparr>o_id = 1, o_customer_id = 1, o_amount = float_of_nat 50, o_priority = False\<rparr> 3
        initial_world)) 1 = float_of_nat 450
   \<and> total_revenue (daily_stats (snd (process_single_order (\<lambda>x. '''') (\<lambda>k. k < 2)
        \<lparr>o_id = 1, o_customer_id = 1, o_amount = float_of_nat 50, o_priority = False\<rparr> 3
        initial_world))) = float_of_nat 50
   \<and> order_count (daily_stats (snd (process_single_order (\<lambda>x. '''') (\<lambda>k. k < 2)
        \<lparr>o_id = 1, o_customer_id = 1, o_amount = float_of_nat 50, o_priority = False\<rparr> 3
        initial_world))) = 1"
  using exactly_once [of "\<lambda>x. ''''" "\<lambda>k. k < 2"
        "\<lparr>o_id = 1, o_customer_id = 1, o_amount = float_of_nat 50, o_priority = False\<rparr>" 3
        initial_world
        "fst (process_single_order (\<lambda>x. '''') (\<lambda>k. k < 2)
        \<lparr>o_id = 1, o_customer_id = 1, o_amount = float_of_nat 50, o_priority = False\<rparr> 3
        initial_world)"
        "snd (process_single_order (\<lambda>x. '''') (\<lambda>k. k < 2)
        \<lparr>o_id = 1, o_customer_id = 1, o_amount = float_of_nat 50, o_priority = False\<rparr> 3
        initial_world)"]
  by (simp add: process_single_order_def deduct_balance_def get_balance_def initial_world_def
        seed_balances_def update_daily_stats_def numeral_3_eq_3 Let_def fsub_nat fadd_nat)

text \<open>
  Claim C4. A call of \<open>deduct_balance\<close> that does not fail transiently compares the
  current balance (\<open>0.0\<close> for an unknown customer) with the amount. Below the amount, it
  answers \<open>success = False\<close> with the error \<open>Insufficient balance\<close> and the balances
  stay as they were. Otherwise it stores the float \<open>balance - amount\<close> and answers
  \<open>success = True\<close> with that new balance. And an order of amount \<open>50.0\<close> for customer
  \<open>1\<close>, whose balance is \<open>500.0\<close>, leaves the balance at \<open>450.0\<close> whenever its status is
  \<open>ok\<close>.
\<close>
theorem deduct_balance_available:
  "(\<not> rnd (draws w) \<longrightarrow>
      (if flt (get_balance w cid) amount then
         fst (deduct_balance rnd cid amount w)
           = Inr \<lparr>success = False, customer_id = cid, new_balance = get_balance w cid,
                  error = Some ''Insufficient balance''\<rparr>
         \<and> customer_balances (snd (deduct_balance rnd cid amount w)) = customer_balances w
       else
         fst (deduct_balance rnd cid amount w)
           = Inr \<lparr>success = True, customer_id = cid,
                  new_balance = fsub (get_balance w cid) amount, error = None\<rparr>
         \<and> customer_balances (snd (deduct_balance rnd cid amount w))
             = (customer_balances w)(cid \<mapsto> fsub (get_balance w cid) amount)
         \<and> get_balance (snd (deduct_balance rnd cid amount w)) cid
             = fsub (get_balance w cid) amount))
   \<and> (get_balance w 1 = float_of_nat 500 \<and> o_customer_id order = 1
        \<and> o_amount order = float_of_nat 50
        \<and> r_status (fst (process_single_order rf rnd order m w)) = ''ok''
      \<longrightarrow> get_balance (snd (process_single_order rf rnd order m w)) 1 = float_of_nat 450)"
proof (intro conjI impI)
  assume "\<not> rnd (draws w)"
  then show "if flt (get_balance w cid) amount then
         fst (deduct_balance rnd cid amount w)
           = Inr \<lparr>success = False, customer_id = cid, new_balance = get_balance w cid,
                  error = Some ''Insufficient balance''\<rparr>
         \<and> customer_balances (snd (deduct_balance rnd cid amount w)) = customer_balances w
       else
         fst (deduct_balance rnd cid amount w)
           = Inr \<lparr>success = True, customer_id = cid,
                  new_balance = fsub (get_balance w cid) amount, error = None\<rparr>
         \<and> customer_balances (snd (deduct_balance rnd cid amount w))
             = (customer_balances w)(cid \<mapsto> fsub (get_balance w cid) amount)
         \<and> get_balance (snd (deduct_balance rnd cid amount w)) cid
             = fsub (get_balance w cid) amount"
    by (simp add: deduct_balance_insufficient deduct_balance_success)
       (simp add: get_balance_def)
next
  assume a: "get_balance w 1 = float_of_nat 500 \<and> o_customer_id order = 1
        \<and> o_amount order = float_of_nat 50
        \<and> r_status (fst (process_single_order rf rnd order m w)) = ''ok''"
  have "process_single_order rf rnd order m w
      = (fst (process_single_order rf rnd order m w), snd (process_single_order rf rnd order m w))"
    by simp
  from process_single_order_effect [OF this] a
  have "customer_balances (snd (process_single_order rf rnd order m w))
      = (customer_balances w)(1 \<mapsto> fsub (float_of_nat 500) (float_of_nat 50))"
    by auto
  then show "get_balance (snd (process_single_order rf rnd order m w)) 1 = float_of_nat 450"
    by (simp add: get_balance_def fsub_nat)
qed

theorem deduct_balance_available_witness:
  "fst (deduct_balance (\<lambda>k. False) 1 (float_of_nat 50) initial_world)
     = Inr \<lparr>success = True, customer_id = 1, new_balance = float_of_nat 450, error = None\<rparr>
   \<and> get_balance (snd (deduct_balance (\<lambda>k. False) 1 (float_of_nat 50) initial_world)) 1
     = float_of_nat 450
   \<and> r_status (fst (process_single_order (\<lambda>x. '''') (\<lambda>k. False)
        \<lparr>o_id = 1, o_customer_id = 1, o_amount = float_of_nat 50, o_priority = False\<rparr> 3
        initial_world)) = ''ok''
   \<and> get_balance (snd (process_single_order (\<lambda>x. '''') (\<lambda>k. False)
        \<lparr>o_id = 1, o_customer_id = 1, o_amount = float_of_nat 50, o_priority = False\<rparr> 3
        initial_world)) 1 = float_of_nat 450"
  using deduct_balance_available [of "\<lambda>k. False" initial_world 1 "float_of_nat 50"
        "\<lparr>o_id = 1, o_customer_id = 1, o_amount = float_of_nat 50, o_priority = False\<rparr>"
        "\<lambda>x. ''''" 3]
  by (simp add: process_single_order_def deduct_balance_def get_balance_def initial_world_def
        seed_balances_def update_daily_stats_def numeral_3_eq_3 Let_def fsub_nat fadd_nat)

text \<open>
  Claim C5. When a call of \<open>deduct_balance\<close> fails transiently, it raises
  \<open>ConnectionError\<close>, the balances and the statistics after the call are those before
  it, and the answer does not depend on the balances: the dictionary is not read.
\<close>
theorem deduct_balance_transient_failure:
  "rnd (draws w) \<Longrightarrow>
     fst (deduct_balance rnd cid amount w)
       = Inl (ConnectionError ''Balance service temporarily unavailable'')
     \<and> customer_balances (snd (deduct_balance rnd cid amount w)) = customer_balances w
     \<and> daily_stats (snd (deduct_balance rnd cid amount w)) = daily_stats w
     \<and> (\<forall>bs. fst (deduct_balance rnd cid amount (w\<lparr>customer_balances := bs\<rparr>))
              = fst (deduct_balance rnd cid amount w))"
  by (simp add: deduct_balance_def)

theorem deduct_balance_transient_failure_witness:
  "fst (deduct_balance (\<lambda>k. True) 1 (float_of_nat 50) initial_world)
       = Inl (ConnectionError ''Balance service temporarily unavailable'')
   \<and> customer_balances (snd (deduct_balance (\<lambda>k. True) 1 (float_of_nat 50) initial_world))
       = customer_balances initial_world
   \<and> get_balance (snd (deduct_balance (\<lambda>k. True) 1 (float_of_nat 50) initial_world)) 1
       = float_of_nat 500"
  using deduct_balance_transient_failure [of "\<lambda>k. True" initial_world 1 "float_of_nat 50"]
  by (simp add: get_balance_def initial_world_def seed_balances_def)

text \<open>
  Claim C7. An order whose amount is at most \<open>0\<close> gets the outcome \<open>error\<close> with the
  message \<open>Invalid order amount\<close>, and the whole state is returned as it was: the
  balances, the statistics and the count of random draws, so \<open>deduct_balance\<close> has not
  been called.
\<close>
theorem invalid_amount:
  "fle (o_amount order) (float_of_nat 0) \<Longrightarrow>
     process_single_order rf rnd order max_retries w =
       (\<lparr>r_id = o_id order, r_status = ''error'', r_priority = o_priority order,
         r_message = Some ''Invalid order amount'', r_new_balance = None\<rparr>, w)"
  by (simp add: process_single_order_def)

theorem invalid_amount_witness:
  "process_single_order (\<lambda>x. '''') (\<lambda>k. False)
       \<lparr>o_id = 1, o_customer_id = 1, o_amount = float_of_nat 0, o_priority = False\<rparr> 3
       initial_world =
       (\<lparr>r_id = 1, r_status = ''error'', r_priority = False,
         r_message = Some ''Invalid order amount'', r_new_balance = None\<rparr>, initial_world)"
  using invalid_amount [of
        "\<lparr>o_id = 1, o_customer_id = 1, o_amount = float_of_nat 0, o_priority = False\<rparr>"
        "\<lambda>x. ''''" "\<lambda>k. False" 3 initial_world]
  by simp

subsection \<open>The retry limit and the outcomes\<close>

lemma str_int_3: "str_int 3 = ''3''"
  by (simp add: str_int_def str_nat.simps digit_def)

text \<open>
  Claim C6. For an order that passes both tests of \<open>_process_single_order\<close> (the amount
  is not at most \<open>0\<close>, the balance is not below the amount), the number of calls of
  \<open>deduct_balance\<close> (each call takes one random draw) is at most \<open>max_retries\<close>, and at
  most \<open>3\<close> through \<open>create_order\<close>; every call but the last one raised
  \<open>ConnectionError\<close>; and when all \<open>max_retries\<close> calls raise, the outcome is \<open>error\<close>
  with a message made of the number \<open>max_retries\<close> and the text of the last
  \<open>ConnectionError\<close> (the text \<open>None\<close> when there was no call at all).
\<close>
theorem bounded_retries:
  assumes valid: "\<not> fle (o_amount order) (float_of_nat 0)"
    and precheck: "\<not> flt (get_balance w (o_customer_id order)) (o_amount order)"
    and run: "process_single_order rf rnd order max_retries w = (r, w')"
  shows "draws w \<le> draws w' \<and> draws w' - draws w \<le> nat max_retries
       \<and> (\<forall>j. draws w + j + 1 < draws w' \<longrightarrow> rnd (draws w + j))
       \<and> ((\<forall>j<nat max_retries. rnd (draws w + j)) \<longrightarrow>
            draws w' = draws w + nat max_retries
          \<and> r_status r = ''error''
          \<and> r_message r = Some (''Balance service unavailable after '' @ str_int max_retries
                @ '' retries: ''
                @ (if max_retries \<le> 0 then ''None''
                   else ''Balance service temporarily unavailable'')))
       \<and> draws (snd (create_order rf rnd order w)) - draws w \<le> 3"
proof -
  from valid precheck run
  have loop: "deduct_attempts rnd order max_retries (nat max_retries) None w = (r, w')"
    by (simp add: process_single_order_def Let_def)
  from valid precheck
  have "deduct_attempts rnd order 3 (nat 3) None w = create_order rf rnd order w"
    by (simp add: create_order_def process_single_order_def Let_def)
  then have "deduct_attempts rnd order 3 (nat 3) None w
      = (fst (create_order rf rnd order w), snd (create_order rf rnd order w))"
    by simp
  from deduct_attempts_draws [OF this, THEN conjunct2, THEN conjunct1]
  have dflt: "draws (snd (create_order rf rnd order w)) - draws w \<le> 3"
    by simp
  have allfail: "draws w' = draws w + nat max_retries
          \<and> r_status r = ''error''
          \<and> r_message r = Some (''Balance service unavailable after '' @ str_int max_retries
                @ '' retries: ''
                @ (if max_retries \<le> 0 then ''None''
                   else ''Balance service temporarily unavailable''))"
    if "\<forall>j<nat max_retries. rnd (draws w + j)"
    using deduct_attempts_all_unavailable [OF that, of order max_retries None] loop
    by auto
  from deduct_attempts_draws [OF loop] dflt allfail show ?thesis
    by auto
qed

theorem bounded_retries_witness:
  "process_single_order (\<lambda>x. '''') (\<lambda>k. True)
       \<lparr>o_id = 1, o_customer_id = 1, o_amount = float_of_nat 50, o_priority = False\<rparr> 3
       initial_world
     = (\<lparr>r_id = 1, r_status = ''error'', r_priority = False,
         r_message = Some
           ''Balance service unavailable after 3 retries: Balance service temporarily unavailable'',
         r_new_balance = None\<rparr>, initial_world\<lparr>draws := 3\<rparr>)
   \<and> draws (initial_world\<lparr>draws := 3\<rparr>) - draws initial_world \<le> nat 3"
proof -
  have run: "process_single_order (\<lambda>x. '''') (\<lambda>k. True)
       \<lparr>o_id = 1, o_customer_id = 1, o_amount = float_of_nat 50, o_priority = False\<rparr> 3
       initial_world
     = (\<lparr>r_id = 1, r_status = ''error'', r_priority = False,
         r_message = Some
           ''Balance service unavailable after 3 retries: Balance service temporarily unavailable'',
         r_new_balance = None\<rparr>, initial_world\<lparr>draws := 3\<rparr>)"
    by (simp add: process_single_order_def deduct_balance_def get_balance_def initial_world_def
        seed_balances_def numeral_3_eq_3 Let_def str_int_3)
  have "\<not> fle (o_amount
      \<lparr>o_id = 1, o_customer_id = 1, o_amount = float_of_nat 50, o_priority = False\<rparr>)
      (float_of_nat 0)"
    by simp
  moreover have "\<not> flt (get_balance initial_world
           (o_customer_id
             \<lparr>o_id = 1, o_customer_id = 1, o_amount = float_of_nat 50, o_priority = False\<rparr>))
      (o_amount \<lparr>o_id = 1, o_customer_id = 1, o_amount = float_of_nat 50, o_priority = False\<rparr>)"
    by (simp add: get_balance_def initial_world_def seed_balances_def)
  ultimately show ?thesis
    using bounded_retries [OF _ _ run] run by simp
qed

lemma deduct_attempts_outcome:
  "fst (deduct_attempts rnd order m n le w) =
     (if \<forall>j<n. rnd (draws w + j) then
        \<lparr>r_id = o_id order, r_status = ''error'', r_priority = o_priority order,
          r_message = Some (''Balance service unavailable after '' @ str_int m @ '' retries: ''
             @ (if n = 0 then str_opt le else ''Balance service temporarily unavailable'')),
          r_new_balance = None\<rparr>
      else if flt (get_balance w (o_customer_id order)) (o_amount order) then
        \<lparr>r_id = o_id order, r_status = ''error'', r_priority = o_priority order,
          r_message = Some ''Insufficient balance'', r_new_balance = None\<rparr>
      else
        \<lparr>r_id = o_id order, r_status = ''ok'', r_priority = o_priority order,
          r_message = None,
          r_new_balance = Some (fsub (get_balance w (o_customer_id order)) (o_amount order))\<rparr>)"
proof (induction n arbitrary: le w)
  case 0
  then show ?case by simp
next
  case (Suc n)
  show ?case
  proof (cases "rnd (draws w)")
    case True
    have all: "(\<forall>j<Suc n. rnd (draws w + j)) \<longleftrightarrow> (\<forall>j<n. rnd (Suc (draws w + j)))"
      using True by (auto simp: less_Suc_eq_0_disj)
    show ?thesis
      using Suc.IH [of "Some ''Balance service temporarily unavailable''"
                       "w\<lparr>draws := draws w + 1\<rparr>"] True
      by (simp add: deduct_balance_unavailable all)
  next
    case False
    then have "\<not> (\<forall>j<Suc n. rnd (draws w + j))"
      by (metis add.right_neutral zero_less_Suc)
    with False show ?thesis
      by (cases "flt (get_balance w (o_customer_id order)) (o_amount order)")
         (simp_all add: deduct_balance_insufficient deduct_balance_success)
  qed
qed

text \<open>
  Claim C9. For every order, every limit of attempts and every sequence of transient
  failures, processing the order returns an outcome with the id and the priority of the
  order, and every kind of failure ends in an outcome of status \<open>error\<close>: an amount at
  most \<open>0\<close> gives \<open>Invalid order amount\<close>; a balance below the amount gives the message
  that starts with \<open>Insufficient balance\<close>; attempts that all raise \<open>ConnectionError\<close>
  give the message with the number of attempts and the last error; in every other case
  the status is \<open>ok\<close> with the new balance. The second part says the same of the retry
  loop alone, where the refusal by \<open>deduct_balance\<close> gives \<open>error\<close> with the message
  \<open>Insufficient balance\<close>.
\<close>
theorem every_failure_is_an_error_outcome:
  "fst (process_single_order rf rnd order max_retries w) =
     (if fle (o_amount order) (float_of_nat 0) then
        \<lparr>r_id = o_id order, r_status = ''error'', r_priority = o_priority order,
          r_message = Some ''Invalid order amount'', r_new_balance = None\<rparr>
      else if flt (get_balance w (o_customer_id order)) (o_amount order) then
        \<lparr>r_id = o_id order, r_status = ''error'', r_priority = o_priority order,
          r_message = Some (''Insufficient balance: ''
             @ rf (get_balance w (o_customer_id order)) @ '' < '' @ rf (o_amount order)),
          r_new_balance = None\<rparr>
      else if \<forall>j<nat max_retries. rnd (draws w + j) then
        \<lparr>r_id = o_id order, r_status = ''error'', r_priority = o_priority order,
          r_message = Some (''Balance service unavailable after '' @ str_int max_retries
             @ '' retries: ''
             @ (if max_retries \<le> 0 then ''None''
                else ''Balance service temporarily unavailable'')),
          r_new_balance = None\<rparr>
      else
        \<lparr>r_id = o_id order, r_status = ''ok'', r_priority = o_priority order,
          r_message = None,
          r_new_balance = Some (fsub (get_balance w (o_customer_id order)) (o_amount order))\<rparr>)
   \<and> fst (deduct_attempts rnd order max_retries n last_error w) =
     (if \<forall>j<n. rnd (draws w + j) then
        \<lparr>r_id = o_id order, r_status = ''error'', r_priority = o_priority order,
          r_message = Some (''Balance service unavailable after '' @ str_int max_retries
             @ '' retries: ''
             @ (if n = 0 then str_opt last_error
                else ''Balance service temporarily unavailable'')),
          r_new_balance = None\<rparr>
      else if flt (get_balance w (o_customer_id order)) (o_amount order) then
        \<lparr>r_id = o_id order, r_status = ''error'', r_priority = o_priority order,
          r_message = Some ''Insufficient balance'', r_new_balance = None\<rparr>
      else
        \<lparr>r_id = o_id order, r_status = ''ok'', r_priority = o_priority order,
          r_message = None,
          r_new_balance = Some (fsub (get_balance w (o_customer_id order)) (o_amount order))\<rparr>)"
proof -
  have "nat max_retries = 0 \<longleftrightarrow> max_retries \<le> 0" by auto
  then show ?thesis
    by (simp add: process_single_order_def Let_def deduct_attempts_outcome)
qed

theorem every_failure_is_an_error_outcome_witness:
  "fst (process_single_order (\<lambda>x. ''f'') (\<lambda>k. False)
        \<lparr>o_id = 1, o_customer_id = 1, o_amount = float_of_nat 10000, o_priority = False\<rparr> 3
        initial_world)
     = \<lparr>r_id = 1, r_status = ''error'', r_priority = False,
        r_message = Some ''Insufficient balance: f < f'', r_new_balance = None\<rparr>
   \<and> fst (process_single_order (\<lambda>x. ''f'') (\<lambda>k. True)
        \<lparr>o_id = 7, o_customer_id = 5, o_amount = float_of_nat 100, o_priority = True\<rparr> 2
        initial_world)
     = \<lparr>r_id = 7, r_status = ''error'', r_priority = True,
        r_message = Some
          ''Balance service unavailable after 2 retries: Balance service temporarily unavailable'',
        r_new_balance = None\<rparr>
   \<and> fst (deduct_attempts (\<lambda>k. False)
        \<lparr>o_id = 1, o_customer_id = 1, o_amount = float_of_nat 10000, o_priority = False\<rparr> 3
        (Suc 0) None initial_world)
     = \<lparr>r_id = 1, r_status = ''error'', r_priority = False,
        r_message = Some ''Insufficient balance'', r_new_balance = None\<rparr>"
  using every_failure_is_an_error_outcome [of "\<lambda>x. ''f''" "\<lambda>k. False"
        "\<lparr>o_id = 1, o_customer_id = 1, o_amount = float_of_nat 10000, o_priority = False\<rparr>" 3
        initial_world 0 None]
      every_failure_is_an_error_outcome [of "\<lambda>x. ''f''" "\<lambda>k. True"
        "\<lparr>o_id = 7, o_customer_id = 5, o_amount = float_of_nat 100, o_priority = True\<rparr>" 2
        initial_world 0 None]
      every_failure_is_an_error_outcome [of "\<lambda>x. ''f''" "\<lambda>k. False"
        "\<lparr>o_id = 1, o_customer_id = 1, o_amount = float_of_nat 10000, o_priority = False\<rparr>" 3
        initial_world "Suc 0" None]
  by (simp add: get_balance_def initial_world_def seed_balances_def str_int_def str_nat.simps
        digit_def)

subsection \<open>Balances stay at or above zero\<close>

lemma seed_nonneg:
  "customer_balances w = seed_balances \<Longrightarrow> fle (float_of_nat 0) (get_balance w c)"
  by (simp add: get_balance_def seed_balances_def)

lemma ledger_step_nonneg:
  assumes "\<forall>c. fle (float_of_nat 0) (get_balance w c)" and "ordinary_op c"
  shows "fle (float_of_nat 0) (get_balance (ledger_step rnd c w) k)"
proof (cases c)
  case (GetBalance cid)
  with assms show ?thesis by simp
next
  case (DeductBalance cid amount)
  show ?thesis
  proof (cases "rnd (draws w)")
    case True
    with assms DeductBalance show ?thesis
      by (simp add: deduct_balance_unavailable)
  next
    case False
    show ?thesis
    proof (cases "flt (get_balance w cid) amount")
      case True
      with False assms DeductBalance show ?thesis
        by (simp add: deduct_balance_insufficient)
    next
      case ge: False
      from assms(1) have "fle (float_of_nat 0) (get_balance w cid)" by simp
      from fsub_nonneg [OF this ge] assms(2) DeductBalance
      have "fle (float_of_nat 0) (fsub (get_balance w cid) amount)" by simp
      moreover from assms(1) have "fle (float_of_nat 0) (get_balance w k)" by simp
      ultimately show ?thesis
        using ge False DeductBalance
        by (simp add: deduct_balance_success) (simp add: get_balance_def)
    qed
  qed
next
  case ResetBalances
  then show ?thesis
    by (simp add: reset_balances_def seed_nonneg)
qed

lemma ledger_run_nonneg:
  "\<forall>c. fle (float_of_nat 0) (get_balance w c) \<Longrightarrow> list_all ordinary_op cs \<Longrightarrow>
     fle (float_of_nat 0) (get_balance (ledger_run rnd cs w) k)"
proof (induction cs arbitrary: w)
  case Nil
  then show ?case by simp
next
  case (Cons c cs)
  from Cons.prems have "\<forall>k. fle (float_of_nat 0) (get_balance (ledger_step rnd c w) k)"
    using ledger_step_nonneg by simp
  from Cons.IH [OF this] Cons.prems(2) show ?case by simp
qed

lemma ledger_step_not_negative:
  assumes "\<forall>c. \<not> flt (get_balance w c) (float_of_nat 0)"
  shows "\<not> flt (get_balance (ledger_step rnd c w) k) (float_of_nat 0)"
proof (cases c)
  case (GetBalance cid)
  with assms show ?thesis by simp
next
  case (DeductBalance cid amount)
  show ?thesis
  proof (cases "rnd (draws w)")
    case True
    with assms DeductBalance show ?thesis
      by (simp add: deduct_balance_unavailable)
  next
    case False
    show ?thesis
    proof (cases "flt (get_balance w cid) amount")
      case True
      with False assms DeductBalance show ?thesis
        by (simp add: deduct_balance_insufficient)
    next
      case ge: False
      from assms have "\<not> flt (get_balance w cid) (float_of_nat 0)" by simp
      from fsub_not_negative [OF this ge]
      have "\<not> flt (fsub (get_balance w cid) amount) (float_of_nat 0)" .
      moreover from assms have "\<not> flt (get_balance w k) (float_of_nat 0)" by simp
      ultimately show ?thesis
        using ge False DeductBalance
        by (simp add: deduct_balance_success) (simp add: get_balance_def)
    qed
  qed
next
  case ResetBalances
  then show ?thesis
    by (simp add: reset_balances_def seed_nonneg nonneg_not_negative)
qed

lemma ledger_run_not_negative:
  "\<forall>c. \<not> flt (get_balance w c) (float_of_nat 0) \<Longrightarrow>
     \<not> flt (get_balance (ledger_run rnd cs w) k) (float_of_nat 0)"
proof (induction cs arbitrary: w)
  case Nil
  then show ?case by simp
next
  case (Cons c cs)
  from Cons.prems have "\<forall>k. \<not> flt (get_balance (ledger_step rnd c w) k) (float_of_nat 0)"
    using ledger_step_not_negative by simp
  from Cons.IH [OF this] show ?case by simp
qed

text \<open>
  The claim C8 as it is written asks for every amount. With the amount NaN, which is not
  below any balance, \<open>deduct_balance\<close> stores NaN as the balance of customer \<open>1\<close>, and NaN
  is not at or above \<open>0\<close>. The same happens with the amount minus infinity followed by
  the amount plus infinity: the balance becomes infinite, then NaN.
\<close>
theorem balance_nan_counterexample:
  "fle (float_of_nat 0) (get_balance initial_world 1)
   \<and> \<not> fle (float_of_nat 0)
        (get_balance (ledger_step no_failures (DeductBalance 1 NaN) initial_world) 1)
   \<and> \<not> fle (float_of_nat 0)
        (get_balance (ledger_run no_failures [DeductBalance 1 NInf, DeductBalance 1 PInf]
           initial_world) 1)"
  by (simp add: deduct_balance_def no_failures_def get_balance_def initial_world_def
        seed_balances_def Let_def fsub_def)
     (simp add: float_of_nat_def)

text \<open>
  Claim C8, amended. No balance is below \<open>0\<close> in the seeded state. Each operation of the
  balance service whose amount is neither NaN nor plus infinity, and so each sequence of
  such operations, keeps all balances at or above \<open>0\<close>, for every customer id and every
  sequence of transient failures. With any amount at all, no balance ever becomes less
  than \<open>0\<close> (it can become NaN).
\<close>
theorem balances_never_negative:
  "fle (float_of_nat 0) (get_balance initial_world k)
   \<and> ((\<forall>c. fle (float_of_nat 0) (get_balance w c)) \<and> ordinary_op c \<longrightarrow>
        fle (float_of_nat 0) (get_balance (ledger_step rnd c w) k))
   \<and> ((\<forall>c. fle (float_of_nat 0) (get_balance w c)) \<and> list_all ordinary_op cs \<longrightarrow>
        fle (float_of_nat 0) (get_balance (ledger_run rnd cs w) k))
   \<and> (list_all ordinary_op cs \<longrightarrow>
        fle (float_of_nat 0) (get_balance (ledger_run rnd cs initial_world) k))
   \<and> ((\<forall>c. \<not> flt (get_balance w c) (float_of_nat 0)) \<longrightarrow>
        \<not> flt (get_balance (ledger_step rnd c w) k) (float_of_nat 0)
      \<and> \<not> flt (get_balance (ledger_run rnd cs w) k) (float_of_nat 0))
   \<and> \<not> flt (get_balance (ledger_run rnd cs initial_world) k) (float_of_nat 0)"
proof -
  have init: "\<forall>c. fle (float_of_nat 0) (get_balance initial_world c)"
    by (simp add: seed_nonneg initial_world_def)
  then have init': "\<forall>c. \<not> flt (get_balance initial_world c) (float_of_nat 0)"
    by (simp add: nonneg_not_negative)
  from init init' show ?thesis
    using ledger_step_nonneg ledger_run_nonneg ledger_step_not_negative ledger_run_not_negative
    by blast
qed

theorem balances_never_negative_witness:
  "(\<forall>c. fle (float_of_nat 0) (get_balance initial_world c))
   \<and> list_all ordinary_op
        [DeductBalance 5 (float_of_nat 60), DeductBalance 5 (float_of_nat 60),
         DeductBalance 5 (float_of_nat 60), GetBalance 5, DeductBalance 9 (float_of_nat 3),
         DeductBalance 5 (float_of_nat 40)]
   \<and> get_balance (ledger_run (\<lambda>k. k = 1)
        [DeductBalance 5 (float_of_nat 60), DeductBalance 5 (float_of_nat 60),
         DeductBalance 5 (float_of_nat 60), GetBalance 5, DeductBalance 9 (float_of_nat 3),
         DeductBalance 5 (float_of_nat 40)] initial_world) 5 = float_of_nat 0
   \<and> fle (float_of_nat 0) (get_balance (ledger_run (\<lambda>k. k = 1)
        [DeductBalance 5 (float_of_nat 60), DeductBalance 5 (float_of_nat 60),
         DeductBalance 5 (float_of_nat 60), GetBalance 5, DeductBalance 9 (float_of_nat 3),
         DeductBalance 5 (float_of_nat 40)] initial_world) 5)"
proof -
  have init: "\<forall>c. fle (float_of_nat 0) (get_balance initial_world c)"
    using balances_never_negative [of _ initial_world "GetBalance 5" "\<lambda>k. k = 1" "[]"]
    by blast
  have ops: "list_all ordinary_op
        [DeductBalance 5 (float_of_nat 60), DeductBalance 5 (float_of_nat 60),
         DeductBalance 5 (float_of_nat 60), GetBalance 5, DeductBalance 9 (float_of_nat 3),
         DeductBalance 5 (float_of_nat 40)]"
    by (simp add: float_of_nat_def)
  have "get_balance (ledger_run (\<lambda>k. k = 1)
        [DeductBalance 5 (float_of_nat 60), DeductBalance 5 (float_of_nat 60),
         DeductBalance 5 (float_of_nat 60), GetBalance 5, DeductBalance 9 (float_of_nat 3),
         DeductBalance 5 (float_of_nat 40)] initial_world) 5 = float_of_nat 0"
    by (simp add: deduct_balance_def get_balance_def initial_world_def seed_balances_def Let_def
          fsub_nat)
  with init ops balances_never_negative [of 5 initial_world "GetBalance 5" "\<lambda>k. k = 1"
        "[DeductBalance 5 (float_of_nat 60), DeductBalance 5 (float_of_nat 60),
         DeductBalance 5 (float_of_nat 60), GetBalance 5, DeductBalance 9 (float_of_nat 3),
         DeductBalance 5 (float_of_nat 40)]"]
  show ?thesis by blast
qed

subsection \<open>Negative amounts at the balance service\<close>

text \<open>
  The claim C10 as it is written asks for a strict increase. With the balance \<open>500.0\<close>
  and the amount minus the smallest positive double, the call succeeds and the stored
  balance is \<open>500.0\<close> again: the difference is rounded back to it.
\<close>
theorem tiny_credit_counterexample:
  "fle (float_of_nat 0) (get_balance initial_world 1)
   \<and> flt (Finite True 1) (float_of_nat 0)
   \<and> \<not> no_failures (draws initial_world)
   \<and> get_balance (snd (deduct_balance no_failures 1 (Finite True 1) initial_world)) 1
       = get_balance initial_world 1
   \<and> \<not> flt (get_balance initial_world 1)
          (get_balance (snd (deduct_balance no_failures 1 (Finite True 1) initial_world)) 1)"
proof -
  have "\<not> flt (float_of_nat 500) (Finite True 1)"
    by (simp add: float_of_nat_def sval_def)
  moreover have "fsub (float_of_nat 500) (Finite True (Suc 0)) = float_of_nat 500"
    using absorbed by simp
  moreover have "flt (Finite True (Suc 0)) (float_of_nat 0)"
    by (simp add: float_of_nat_def sval_def)
  ultimately show ?thesis
    by (simp add: deduct_balance_def no_failures_def get_balance_def initial_world_def
          seed_balances_def Let_def)
qed

text \<open>
  Claim C10, amended. \<open>deduct_balance\<close> does not look at the sign of the amount: with a
  balance that is a double at or above \<open>0\<close> and an amount below \<open>0\<close>, a call that does
  not fail transiently answers \<open>success = True\<close> and stores the float
  \<open>balance - amount\<close>, which is never below the old balance. Through
  \<open>_process_single_order\<close> such an amount changes nothing.
\<close>
theorem negative_amount_credits:
  assumes "is_double (get_balance w cid)" and "fle (float_of_nat 0) (get_balance w cid)"
    and "flt amount (float_of_nat 0)" and "\<not> rnd (draws w)"
  shows "fst (deduct_balance rnd cid amount w)
           = Inr \<lparr>success = True, customer_id = cid,
                  new_balance = fsub (get_balance w cid) amount, error = None\<rparr>
       \<and> get_balance (snd (deduct_balance rnd cid amount w)) cid
           = fsub (get_balance w cid) amount
       \<and> fle (get_balance w cid) (get_balance (snd (deduct_balance rnd cid amount w)) cid)
       \<and> snd (process_single_order rf rnd'
               \<lparr>o_id = i, o_customer_id = cid, o_amount = amount, o_priority = p\<rparr> m w) = w"
proof -
  from assms(2,3) have "\<not> flt (get_balance w cid) amount"
    by (rule nonneg_not_less_negative)
  with assms(4) have "deduct_balance rnd cid amount w =
     (Inr \<lparr>success = True, customer_id = cid, new_balance = fsub (get_balance w cid) amount,
           error = None\<rparr>,
      w\<lparr>draws := draws w + 1,
        customer_balances := (customer_balances w)(cid \<mapsto> fsub (get_balance w cid) amount)\<rparr>)"
    by (rule deduct_balance_success)
  moreover have "fle (get_balance w cid) (fsub (get_balance w cid) amount)"
    using assms(1,2,3) by (rule fsub_negative_ge)
  moreover have "fle amount (float_of_nat 0)"
    using assms(3) by (rule flt_imp_fle)
  ultimately show ?thesis
    by (simp add: get_balance_def process_single_order_def)
qed

theorem negative_amount_credits_witness:
  "is_double (get_balance initial_world 1)
   \<and> fle (float_of_nat 0) (get_balance initial_world 1)
   \<and> flt (fneg (float_of_nat 20)) (float_of_nat 0)
   \<and> fst (deduct_balance (\<lambda>k. False) 1 (fneg (float_of_nat 20)) initial_world)
        = Inr \<lparr>success = True, customer_id = 1, new_balance = float_of_nat 520, error = None\<rparr>
   \<and> get_balance (snd (deduct_balance (\<lambda>k. False) 1 (fneg (float_of_nat 20)) initial_world)) 1
        = float_of_nat 520
   \<and> fle (get_balance initial_world 1)
        (get_balance (snd (deduct_balance (\<lambda>k. False) 1 (fneg (float_of_nat 20))
           initial_world)) 1)"
proof -
  have b: "get_balance initial_world 1 = float_of_nat 500"
    by (simp add: get_balance_def initial_world_def seed_balances_def)
  have d: "is_double (get_balance initial_world 1)"
    unfolding b by (rule is_double_float_of_nat) simp
  have n: "flt (fneg (float_of_nat 20)) (float_of_nat 0)"
    by (simp add: float_of_nat_def sval_def)
  have s: "fsub (float_of_nat 500) (fneg (float_of_nat 20)) = float_of_nat 520"
    by (simp add: fsub_def fadd_nat)
  from negative_amount_credits [OF d _ n, of "\<lambda>k. False"] d n b s
  show ?thesis by simp
qed

subsection \<open>The order of a batch\<close>

lemma process_single_order_fst:
  "r_id (fst (process_single_order rf rnd order m w)) = o_id order"
  "r_priority (fst (process_single_order rf rnd order m w)) = o_priority order"
  using process_single_order_echo [of rf rnd order m w
      "fst (process_single_order rf rnd order m w)" "snd (process_single_order rf rnd order m w)"]
  by simp_all

lemma insort_key_bool_False:
  "\<not> f x \<Longrightarrow> insort_key f x ys = x # ys"
  by (cases ys) auto

lemma insort_key_bool_True:
  "f x \<Longrightarrow> insort_key f x ys = filter (\<lambda>y. \<not> f y) ys @ x # filter f ys" if "sorted (map f ys)"
  using that by (induction ys) (auto simp: insort_key_bool_False)

lemma sort_key_bool:
  fixes f :: "'a \<Rightarrow> bool"
  shows "sort_key f xs = filter (\<lambda>x. \<not> f x) xs @ filter f xs"
proof (induction xs)
  case Nil
  then show ?case by simp
next
  case (Cons x xs)
  show ?case
  proof (cases "f x")
    case True
    have "sorted (map f (sort_key f xs))" by simp
    from insort_key_bool_True [OF this True] have
      "insort_key f x (sort_key f xs)
         = filter (\<lambda>y. \<not> f y) (sort_key f xs) @ x # filter f (sort_key f xs)" .
    with True Cons.IH show ?thesis by (simp add: sort_key_def)
  next
    case False
    with Cons.IH show ?thesis by (simp add: sort_key_def insort_key_bool_False)
  qed
qed

lemma create_orders_batch_order:
  "fst (create_orders_batch rf rnd request w) =
     filter (\<lambda>r. \<not> r_priority r) (fst (process_orders rf rnd (orders request) w))
     @ filter r_priority (fst (process_orders rf rnd (orders request) w))"
  by (simp add: create_orders_batch_def split_beta sort_key_bool)

text \<open>
  Claim C1. The batch of the orders with ids \<open>1\<close>, \<open>2\<close>, \<open>3\<close>, of which only \<open>2\<close> has
  priority, comes back with the priorities \<open>[False, False, True]\<close> and the ids
  \<open>[1, 3, 2]\<close>: the sort is stable and ascending, so the priority order is last, not
  first.
\<close>
theorem batch_puts_priority_last:
  "map r_priority (fst (create_orders_batch rf rnd
      \<lparr>orders = [\<lparr>o_id = 1, o_customer_id = 1, o_amount = float_of_nat 10, o_priority = False\<rparr>,
                 \<lparr>o_id = 2, o_customer_id = 1, o_amount = float_of_nat 10, o_priority = True\<rparr>,
                 \<lparr>o_id = 3, o_customer_id = 1, o_amount = float_of_nat 10, o_priority = False\<rparr>]\<rparr>
      w))
     = [False, False, True]
   \<and> map r_id (fst (create_orders_batch rf rnd
      \<lparr>orders = [\<lparr>o_id = 1, o_customer_id = 1, o_amount = float_of_nat 10, o_priority = False\<rparr>,
                 \<lparr>o_id = 2, o_customer_id = 1, o_amount = float_of_nat 10, o_priority = True\<rparr>,
                 \<lparr>o_id = 3, o_customer_id = 1, o_amount = float_of_nat 10, o_priority = False\<rparr>]\<rparr>
      w))
     = [1, 3, 2]"
  by (simp add: create_orders_batch_order split_beta process_single_order_fst)

subsection \<open>Interleaved updates of the statistics\<close>

lemma upd_step_alone:
  "upd_step amount (fst (upd_step amount Entered s)) (snd (upd_step amount Entered s))
     = (Returned, update_daily_stats amount s)"
  by (simp add: update_daily_stats_def)

lemma run_schedule_serial:
  "run_schedule [0, 0, 1, 1] [(float_of_nat 10, Entered), (float_of_nat 10, Entered)]
       \<lparr>total_revenue = float_of_nat 0, order_count = 0\<rparr>
     = ([(float_of_nat 10, Returned), (float_of_nat 10, Returned)],
        \<lparr>total_revenue = float_of_nat 20, order_count = 2\<rparr>)"
  by (simp add: fadd_nat)

text \<open>
  Claim C2. Two callers of \<open>_update_daily_stats\<close> with amount \<open>10.0\<close>, starting from zero
  statistics: when both read before either writes, both return, and the statistics show
  one order and a revenue of \<open>10.0\<close>, not two orders and \<open>20.0\<close>.
\<close>
theorem lost_update:
  "run_schedule [0, 1, 0, 1] [(float_of_nat 10, Entered), (float_of_nat 10, Entered)]
       \<lparr>total_revenue = float_of_nat 0, order_count = 0\<rparr>
     = ([(float_of_nat 10, Returned), (float_of_nat 10, Returned)],
        \<lparr>total_revenue = float_of_nat 10, order_count = 1\<rparr>)"
  by (simp add: fadd_nat)

end
